theory Spec2Isabelle
  imports Complex_Main
begin

section \<open>Python floats: binary64 arithmetic on exact rationals\<close>

text \<open>
  The progress arithmetic of \<^verbatim>\<open>convert_files\<close> is written with Python floats
  (\<^verbatim>\<open>idx / total * 100\<close>, \<^verbatim>\<open>us / 1e6 / duration\<close>). A Python float is an IEEE-754
  binary64 number; every operation returns the exact result rounded to the nearest
  representable number, ties to the even mantissa. The value of a finite float is a
  rational, so the operations are modelled as exact rational arithmetic followed by the
  rounding function \<open>rn\<close>.
\<close>

datatype pyfloat = Finite rat | PosInf | NegInf | NaN

function ilog2 :: "int \<Rightarrow> int" where
  "ilog2 n = (if n < 2 then 0 else 1 + ilog2 (n div 2))"
  by pat_completeness auto
termination
  by (relation "measure nat") auto

declare ilog2.simps [simp del]

text \<open>\<open>flog2 x\<close> is the binary exponent of a positive rational: \<open>2 powi flog2 x \<le> x < 2 powi (flog2 x + 1)\<close>.\<close>

definition flog2 :: "rat \<Rightarrow> int" where
  "flog2 x = (let (p, q) = quotient_of x;
                  d = ilog2 p - ilog2 q
              in if 2 powi d \<le> x then d else d - 1)"

definition round_half_even :: "rat \<Rightarrow> int" where
  "round_half_even y = (let f = \<lfloor>y\<rfloor>; d = y - of_int f in
     if d < 1/2 then f else if 1/2 < d then f + 1 else if even f then f else f + 1)"

text \<open>
  The exponent of the last mantissa bit: 53 bits of precision for normal numbers, the
  fixed exponent \<open>-1074\<close> for subnormal ones.
\<close>

definition ulp_exp :: "rat \<Rightarrow> int" where
  "ulp_exp x = max (flog2 x - 52) (- 1074)"

definition rn_pos :: "rat \<Rightarrow> rat" where
  "rn_pos x = (let q = 2 powi ulp_exp x in of_int (round_half_even (x / q)) * q)"

definition rn :: "rat \<Rightarrow> rat" where
  "rn x = (if x = 0 then 0 else if 0 < x then rn_pos x else - rn_pos (- x))"

text \<open>
  A result whose rounding leaves the finite range (binary exponent above 1023, that is
  magnitude at least \<open>2 ^ 1024\<close>) becomes an infinity.
\<close>

definition fl :: "rat \<Rightarrow> pyfloat" where
  "fl x = (let r = rn x in
     if r = 0 then Finite 0
     else if 1024 \<le> flog2 \<bar>r\<bar> then (if 0 < r then PosInf else NegInf)
     else Finite r)"

text \<open>\<^verbatim>\<open>int(x)\<close> of a finite float truncates towards zero.\<close>

definition py_int :: "rat \<Rightarrow> int" where
  "py_int x = (if 0 \<le> x then \<lfloor>x\<rfloor> else \<lceil>x\<rceil>)"

section \<open>The progress aggregator\<close>

text \<open>
  \<^verbatim>\<open>slice_start = int(idx / total * 100)\<close> and \<^verbatim>\<open>slice_end = int((idx + 1) / total * 100)\<close>:
  both are the same expression at \<open>j = idx\<close> and \<open>j = idx + 1\<close>. The true division of two
  ints is the correctly rounded quotient; the product with \<open>100\<close> is rounded again. Inside
  the loop \<open>0 \<le> j \<le> total\<close> and \<open>0 < total\<close>, so the quotient is at most 1 and neither
  ZeroDivisionError nor an overflow can arise.
\<close>

definition slice_bound :: "nat \<Rightarrow> nat \<Rightarrow> int" where
  "slice_bound j tot = py_int (rn (rn (of_nat j / of_nat tot) * 100))"

text \<open>
  \<^verbatim>\<open>file_pct = min(1.0, us / 1e6 / duration)\<close>, evaluated only under the guard
  \<^verbatim>\<open>duration and duration > 0\<close>. The result is \<open>None\<close> when the guard is false (no
  duration, zero, negative, NaN) and when \<^verbatim>\<open>us / 1e6\<close> raises OverflowError because
  the int is too large for a float (the exception is swallowed by the poll loop).
  A quotient that overflows is \<open>inf\<close>, and \<^verbatim>\<open>min(1.0, inf)\<close> is \<open>1.0\<close>.
\<close>

text \<open>\<^verbatim>\<open>min(1.0, x)\<close> is \<open>x\<close> when \<open>x < 1.0\<close> and \<open>1.0\<close> otherwise (also for NaN).\<close>

fun min1 :: "pyfloat \<Rightarrow> pyfloat" where
  "min1 (Finite q) = Finite (if q < 1 then q else 1)"
| "min1 PosInf = Finite 1"
| "min1 NegInf = NegInf"
| "min1 NaN = Finite 1"

fun file_pct :: "int \<Rightarrow> pyfloat option \<Rightarrow> pyfloat option" where
  "file_pct us (Some (Finite d)) =
     (if 0 < d then
        (case fl (of_int us) of
           Finite u \<Rightarrow> Some (min1 (fl (rn (u / 1000000) / d)))
         | _ \<Rightarrow> None)
      else None)"
| "file_pct us (Some PosInf) =
     (case fl (of_int us) of Finite u \<Rightarrow> Some (Finite 0) | _ \<Rightarrow> None)"
| "file_pct us (Some NegInf) = None"
| "file_pct us (Some NaN) = None"
| "file_pct us None = None"

text \<open>
  \<^verbatim>\<open>overall = slice_start + int(file_pct * (slice_end - slice_start))\<close>; \<^verbatim>\<open>int\<close> of an
  infinity or a NaN raises, which the poll loop swallows (\<open>None\<close>).
\<close>

fun overall_pct :: "int \<Rightarrow> int \<Rightarrow> pyfloat \<Rightarrow> int option" where
  "overall_pct slice_start slice_end (Finite f) =
     Some (slice_start + py_int (rn (f * of_int (slice_end - slice_start))))"
| "overall_pct slice_start slice_end PosInf = None"
| "overall_pct slice_start slice_end NegInf = None"
| "overall_pct slice_start slice_end NaN = None"

section \<open>The progress channel reader\<close>

text \<open>
  \<^verbatim>\<open>re.findall(r"^out_time_ms=(\d+)", prog_content, re.MULTILINE)\<close>: with MULTILINE the
  anchor matches at the start of the text and after every newline, and a match never
  crosses a newline, so the result lists, line by line, the digits that follow the key.
\<close>

fun split_on :: "'a \<Rightarrow> 'a list \<Rightarrow> 'a list list" where
  "split_on c [] = [[]]"
| "split_on c (x # xs) =
     (let r = split_on c xs in if x = c then [] # r else (x # hd r) # tl r)"

text \<open>
  The text of the progress file is a list of 8-bit characters; among these \<^verbatim>\<open>\d\<close> matches
  the ten ASCII digits only. Decimal digits of other scripts, which \<^verbatim>\<open>\d\<close> would also
  match on a Python string, lie outside this character type.
\<close>

definition is_digit :: "char \<Rightarrow> bool" where
  "is_digit c = (c \<in> set ''0123456789'')"

definition line_match :: "string \<Rightarrow> string option" where
  "line_match line =
     (if take 12 line = ''out_time_ms='' then
        (let ds = takeWhile is_digit (drop 12 line) in if ds = [] then None else Some ds)
      else None)"

definition out_time_matches :: "string \<Rightarrow> string list" where
  "out_time_matches content = List.map_filter line_match (split_on (CHR 0x0A) content)"

definition int_of_digits :: "string \<Rightarrow> int" where
  "int_of_digits ds = foldl (\<lambda>a c. 10 * a + (int (of_char c) - 48)) 0 ds"

text \<open>
  \<^verbatim>\<open>int(matches[-1])\<close>: Python refuses a decimal string of more than 4300 digits with a
  ValueError (\<open>None\<close>), which the poll loop swallows.
\<close>

definition py_int_of_str :: "string \<Rightarrow> int option" where
  "py_int_of_str ds = (if 4300 < int (length ds) then None else Some (int_of_digits ds))"

text \<open>
  One pass through the \<^verbatim>\<open>try\<close> block of the poll loop: \<open>None\<close> when no percentage is
  computed (the read raised, no record matched, the duration guard is false, or the
  arithmetic raised), otherwise the value of \<^verbatim>\<open>overall\<close>.
\<close>

definition poll_overall :: "int \<Rightarrow> int \<Rightarrow> pyfloat option \<Rightarrow> string option \<Rightarrow> int option" where
  "poll_overall slice_start slice_end duration rd =
     (case rd of
        None \<Rightarrow> None
      | Some content \<Rightarrow>
          (let matches = out_time_matches content in
           if matches = [] then None
           else (case py_int_of_str (last matches) of
                   None \<Rightarrow> None
                 | Some us \<Rightarrow>
                     (case file_pct us duration of
                        None \<Rightarrow> None
                      | Some f \<Rightarrow> overall_pct slice_start slice_end f))))"

section \<open>Output paths\<close>

text \<open>
  A pure POSIX path of \<^verbatim>\<open>pathlib\<close>: the anchor and the list of components. Two paths are
  equal when their components are. \<^verbatim>\<open>name\<close>, \<^verbatim>\<open>suffix\<close>, \<^verbatim>\<open>stem\<close>, \<^verbatim>\<open>with_name\<close>,
  \<^verbatim>\<open>with_stem\<close> and \<^verbatim>\<open>with_suffix\<close> follow \<^verbatim>\<open>pathlib.PurePath\<close>; a ValueError is \<open>None\<close>.
\<close>

record ppath =
  p_anchor :: string
  p_parts :: "string list"

definition path_name :: "ppath \<Rightarrow> string" where
  "path_name p = (if p_parts p = [] then [] else last (p_parts p))"

definition rfind :: "char \<Rightarrow> string \<Rightarrow> int" where
  "rfind c s = (if c \<in> set s
                then int (length s) - 1 - int (length (takeWhile (\<lambda>x. x \<noteq> c) (rev s)))
                else - 1)"

definition py_suffix :: "string \<Rightarrow> string" where
  "py_suffix name = (let i = rfind (CHR ''.'') name in
     if 0 < i \<and> i < int (length name) - 1 then drop (nat i) name else [])"

definition py_stem :: "string \<Rightarrow> string" where
  "py_stem name = (let i = rfind (CHR ''.'') name in
     if 0 < i \<and> i < int (length name) - 1 then take (nat i) name else name)"

definition with_suffix :: "ppath \<Rightarrow> string \<Rightarrow> ppath option" where
  "with_suffix p suffix =
     (if CHR ''/'' \<in> set suffix then None
      else if (suffix \<noteq> [] \<and> hd suffix \<noteq> CHR ''.'') \<or> suffix = ''.'' then None
      else let name = path_name p in
        if name = [] then None
        else let old_suffix = py_suffix name;
                 name' = (if old_suffix = [] then name @ suffix
                          else take (length name - length old_suffix) name @ suffix)
             in Some (p\<lparr>p_parts := butlast (p_parts p) @ [name']\<rparr>))"

text \<open>
  \<^verbatim>\<open>with_name\<close> parses the new name as a path: it must not be empty, must not end with
  or start with the separator, and must consist of exactly one component, where empty
  components and \<^verbatim>\<open>.\<close> are dropped by the parser.
\<close>

definition name_components :: "string \<Rightarrow> string list" where
  "name_components name' = filter (\<lambda>c. c \<noteq> [] \<and> c \<noteq> ''.'') (split_on (CHR ''/'') name')"

definition with_name :: "ppath \<Rightarrow> string \<Rightarrow> ppath option" where
  "with_name p name' =
     (if path_name p = [] then None
      else if name' = [] \<or> last name' = CHR ''/'' \<or> hd name' = CHR ''/''
              \<or> length (name_components name') \<noteq> 1 then None
      else Some (p\<lparr>p_parts := butlast (p_parts p) @ [name']\<rparr>))"

definition with_stem :: "ppath \<Rightarrow> string \<Rightarrow> ppath option" where
  "with_stem p stem = with_name p (stem @ py_suffix (path_name p))"

text \<open>The keys of \<^verbatim>\<open>FORMAT_DEFS\<close>: \<^verbatim>\<open>main\<close> rejects every other format.\<close>

definition FORMAT_KEYS :: "string list" where
  "FORMAT_KEYS = [''mp3'', ''ogg'', ''flac'', ''wav'', ''m4a'', ''opus'', ''alac'']"

definition target_suffix :: "string \<Rightarrow> string" where
  "target_suffix fmt = (if fmt = ''m4a'' \<or> fmt = ''alac'' then ''.m4a'' else ''.'' @ fmt)"

definition output_path :: "ppath \<Rightarrow> string \<Rightarrow> ppath option" where
  "output_path input_path fmt =
     (case with_suffix input_path (target_suffix fmt) of
        None \<Rightarrow> None
      | Some out \<Rightarrow>
          if out = input_path then
            (case with_stem input_path (py_stem (path_name input_path) @ ''_'' @ fmt) of
               None \<Rightarrow> None
             | Some renamed \<Rightarrow> with_suffix renamed (target_suffix fmt))
          else Some out)"

section \<open>The diagnostic excerpt\<close>

text \<open>
  \<^verbatim>\<open>stderr_bytes.decode(errors='replace')[:400]\<close>: the bytes are decoded as UTF-8, every
  maximal ill-formed part becomes U+FFFD, and the first 400 characters of the decoded
  text are kept. Bytes are numbers below 256, characters are code points.
\<close>

definition between :: "nat \<Rightarrow> nat \<Rightarrow> nat \<Rightarrow> bool" where
  "between lo hi b = (lo \<le> b \<and> b \<le> hi)"

definition second_ok :: "nat \<Rightarrow> nat \<Rightarrow> bool" where
  "second_ok b c =
     (if b = 0xE0 then between 0xA0 0xBF c
      else if b = 0xED then between 0x80 0x9F c
      else if b = 0xF0 then between 0x90 0xBF c
      else if b = 0xF4 then between 0x80 0x8F c
      else between 0x80 0xBF c)"

text \<open>The code point decoded at the head of the input and the number of bytes it takes.\<close>

fun utf8_step :: "nat \<Rightarrow> nat list \<Rightarrow> nat \<times> nat" where
  "utf8_step b bs =
     (if b < 0x80 then (b, 1)
      else if between 0xC2 0xDF b then
        (case bs of
           c1 # _ \<Rightarrow> if between 0x80 0xBF c1 then ((b - 0xC0) * 64 + (c1 - 0x80), 2)
                     else (0xFFFD, 1)
         | [] \<Rightarrow> (0xFFFD, 1))
      else if between 0xE0 0xEF b then
        (case bs of
           c1 # c2 # _ \<Rightarrow>
             if \<not> second_ok b c1 then (0xFFFD, 1)
             else if between 0x80 0xBF c2
               then ((b - 0xE0) * 4096 + (c1 - 0x80) * 64 + (c2 - 0x80), 3)
             else (0xFFFD, 2)
         | [c1] \<Rightarrow> if second_ok b c1 then (0xFFFD, 2) else (0xFFFD, 1)
         | [] \<Rightarrow> (0xFFFD, 1))
      else if between 0xF0 0xF4 b then
        (case bs of
           c1 # c2 # c3 # _ \<Rightarrow>
             if \<not> second_ok b c1 then (0xFFFD, 1)
             else if \<not> between 0x80 0xBF c2 then (0xFFFD, 2)
             else if between 0x80 0xBF c3
               then ((b - 0xF0) * 262144 + (c1 - 0x80) * 4096 + (c2 - 0x80) * 64 + (c3 - 0x80), 4)
             else (0xFFFD, 3)
         | [c1, c2] \<Rightarrow>
             if \<not> second_ok b c1 then (0xFFFD, 1)
             else if between 0x80 0xBF c2 then (0xFFFD, 3) else (0xFFFD, 2)
         | [c1] \<Rightarrow> if second_ok b c1 then (0xFFFD, 2) else (0xFFFD, 1)
         | [] \<Rightarrow> (0xFFFD, 1))
      else (0xFFFD, 1))"

declare utf8_step.simps [simp del]

fun utf8_decode_fuel :: "nat \<Rightarrow> nat list \<Rightarrow> nat list" where
  "utf8_decode_fuel 0 bs = []"
| "utf8_decode_fuel (Suc k) [] = []"
| "utf8_decode_fuel (Suc k) (b # bs) =
     (let (cp, n) = utf8_step b bs in cp # utf8_decode_fuel k (drop (n - 1) bs))"

text \<open>Every step takes at least one byte, so the length of the input is fuel enough.\<close>

definition utf8_decode :: "nat list \<Rightarrow> nat list" where
  "utf8_decode bs = utf8_decode_fuel (length bs) bs"

definition diag_excerpt :: "nat list \<Rightarrow> nat list" where
  "diag_excerpt stderr_bytes = take 400 (utf8_decode stderr_bytes)"

section \<open>The display surface\<close>

text \<open>
  \<^verbatim>\<open>pbar_open\<close> splits what \<^verbatim>\<open>kdialog --progressbar\<close> printed into tokens; the handle is
  the pair (service, path), or absent when nothing was printed.
\<close>

definition pbar_open :: "string list \<Rightarrow> (string \<times> string) option" where
  "pbar_open parts =
     (if 2 \<le> length parts then Some (parts ! 0, parts ! 1)
      else if length parts = 1 then Some (parts ! 0, ''/'')
      else None)"

text \<open>
  \<^verbatim>\<open>pbar_set\<close> returns True without any remote call when there is no handle or no
  \<^verbatim>\<open>qdbus\<close> binary; otherwise it reports whether the remote \<^verbatim>\<open>Set\<close> call exited with 0
  (\<open>set_ok\<close>, the answer of the display surface).
\<close>

definition pbar_set :: "(string \<times> string) option \<Rightarrow> string option \<Rightarrow> bool \<Rightarrow> bool" where
  "pbar_set handle qdbus set_ok = (if handle = None \<or> qdbus = None then True else set_ok)"

text \<open>
  \<^verbatim>\<open>pbar_close\<close> makes the remote \<^verbatim>\<open>close\<close> call only when there are a handle and a
  \<^verbatim>\<open>qdbus\<close> binary: this is whether a call of \<^verbatim>\<open>pbar_close\<close> reaches the display surface.
\<close>

definition pbar_close :: "(string \<times> string) option \<Rightarrow> string option \<Rightarrow> bool" where
  "pbar_close handle qdbus = (handle \<noteq> None \<and> qdbus \<noteq> None)"

section \<open>The lossy-source warning\<close>

definition LOSSY_CODECS :: "string list" where
  "LOSSY_CODECS = [''mp3'', ''vorbis'', ''aac'', ''opus'', ''wmav1'', ''wmav2'', ''ac3'',
     ''eac3'', ''mp2'', ''amrnb'', ''amrwb'', ''wmavoice'']"

text \<open>
  \<^verbatim>\<open>warn_if_lossy\<close> asks the user only when the source codec is in the lossy category
  of \<^verbatim>\<open>CODEC_CATEGORY\<close>; both dialogs (lossy and lossless target) return whether the user
  chose to convert (\<open>yes\<close>).
\<close>

definition src_lossy :: "string option \<Rightarrow> bool" where
  "src_lossy input_codec = (case input_codec of None \<Rightarrow> False | Some c \<Rightarrow> c \<in> set LOSSY_CODECS)"

definition warn_if_lossy :: "string option \<Rightarrow> bool \<Rightarrow> bool" where
  "warn_if_lossy input_codec yes = (if src_lossy input_codec then yes else True)"

section \<open>Tasks, events and the batch\<close>

text \<open>
  Everything \<^verbatim>\<open>convert_files\<close> learns from outside is given with the file it belongs to:
  whether the path exists, what the probes answer, what each poll of the running encoder
  sees, and how the encoder ends. The list of polls is the sequence of iterations of
  \<^verbatim>\<open>while proc.poll() is None\<close>: the encoder is taken to exit after finitely many polls.
  Calls of collaborators that the source does not guard (\<^verbatim>\<open>kdialog\<close>, \<^verbatim>\<open>notify-send\<close>,
  \<^verbatim>\<open>mkstemp\<close>, \<^verbatim>\<open>Popen\<close>) are taken to return.
\<close>

text \<open>
  \<^verbatim>\<open>input_path.exists()\<close> answers True or False, or raises the OSError of the underlying
  \<^verbatim>\<open>stat\<close> call when that is not one of the errors it takes for absence (a name that is
  too long, a directory that may not be searched).
\<close>

datatype exists_result = Present | Absent | Exists_raised

record tick =
  tk_read :: "string option"   \<comment> \<open>the text read from the progress file; None when the read raised\<close>
  tk_alive :: bool             \<comment> \<open>whether a remote Set call made at this poll exits with 0\<close>

record task =
  tsk_path :: ppath                     \<comment> \<open>\<^verbatim>\<open>Path(filepath)\<close>\<close>
  tsk_exists :: exists_result           \<comment> \<open>\<^verbatim>\<open>input_path.exists()\<close>\<close>
  tsk_codec :: "string option"          \<comment> \<open>\<^verbatim>\<open>probe_codec(filepath)\<close>\<close>
  tsk_yes :: bool                       \<comment> \<open>the user's answer to a lossy warning\<close>
  tsk_duration :: "pyfloat option"      \<comment> \<open>\<^verbatim>\<open>get_duration(filepath)\<close>\<close>
  tsk_ticks :: "tick list"              \<comment> \<open>the polls made while the encoder runs\<close>
  tsk_returncode :: int                 \<comment> \<open>\<^verbatim>\<open>proc.returncode\<close>\<close>
  tsk_stderr :: "nat list"              \<comment> \<open>\<^verbatim>\<open>proc.stderr.read()\<close>\<close>

datatype label = Preparing | Converting | Done

datatype err = File_not_found ppath | Encode_error string "nat list"

datatype event =
    PbarOpen
  | PbarSet int label nat          \<comment> \<open>\<^verbatim>\<open>pbar_set(handle, value, label)\<close> for the file with this index\<close>
  | PbarClose bool                 \<comment> \<open>\<^verbatim>\<open>pbar_close(handle)\<close>, and whether it makes the remote call\<close>
  | ProbeCodec nat
  | WarnDialog nat
  | Mkstemp nat                    \<comment> \<open>the progress-report file of the task is created\<close>
  | GetDuration nat
  | Popen nat ppath                \<comment> \<open>the encoder is spawned, writing to the output path\<close>
  | Kill nat                       \<comment> \<open>\<^verbatim>\<open>proc.kill()\<close>\<close>
  | Wait nat
  | UnlinkProg nat                 \<comment> \<open>\<^verbatim>\<open>os.unlink(prog_path)\<close>\<close>
  | UnlinkOutput nat ppath         \<comment> \<open>\<^verbatim>\<open>output_path.unlink()\<close>\<close>
  | NotifyCancelled nat nat
  | KdialogErrors nat nat "err list" "nat option"
  | NotifyErrors nat nat nat
  | NotifyDone nat

record env =
  e_fmt :: string
  e_handle :: "(string \<times> string) option"
  e_qdbus :: "string option"

text \<open>
  The \<^verbatim>\<open>while proc.poll() is None\<close> loop. It returns the calls it made and whether it
  left through \<^verbatim>\<open>break\<close> with \<^verbatim>\<open>cancelled = True\<close>.
\<close>

fun poll_loop :: "env \<Rightarrow> nat \<Rightarrow> int \<Rightarrow> int \<Rightarrow> pyfloat option \<Rightarrow> int \<Rightarrow> tick list
    \<Rightarrow> event list \<times> bool" where
  "poll_loop G idx slice_start slice_end duration last_pct [] = ([], False)"
| "poll_loop G idx slice_start slice_end duration last_pct (t # ts) =
     (case poll_overall slice_start slice_end duration (tk_read t) of
        None \<Rightarrow> poll_loop G idx slice_start slice_end duration last_pct ts
      | Some overall \<Rightarrow>
          if last_pct < overall then
            (if pbar_set (e_handle G) (e_qdbus G) (tk_alive t) then
               (let (evs, cancelled) = poll_loop G idx slice_start slice_end duration overall ts
                in (PbarSet overall Converting idx # evs, cancelled))
             else ([PbarSet overall Converting idx, Kill idx], True))
          else poll_loop G idx slice_start slice_end duration last_pct ts)"

datatype task_outcome = Missing | Rejected | Succeeded | Failed err | Task_cancelled | Raised

text \<open>One iteration of \<^verbatim>\<open>for idx, filepath in enumerate(files)\<close>.\<close>

definition run_task :: "env \<Rightarrow> nat \<Rightarrow> nat \<Rightarrow> task \<Rightarrow> event list \<times> task_outcome" where
  "run_task G tot idx t =
     (case tsk_exists t of
        Exists_raised \<Rightarrow> ([], Raised)
      | Absent \<Rightarrow> ([], Missing)
      | Present \<Rightarrow>
     (case output_path (tsk_path t) (e_fmt G) of
        None \<Rightarrow> ([], Raised)
      | Some out \<Rightarrow>
          (let asked = ProbeCodec idx # (if src_lossy (tsk_codec t) then [WarnDialog idx] else [])
           in if \<not> warn_if_lossy (tsk_codec t) (tsk_yes t) then (asked, Rejected)
           else
             (let slice_start = slice_bound idx tot;
                  slice_end = slice_bound (idx + 1) tot;
                  (polled, cancelled) =
                     poll_loop G idx slice_start slice_end (tsk_duration t) slice_start (tsk_ticks t);
                  body = asked @ [PbarSet slice_start Preparing idx, Mkstemp idx, GetDuration idx,
                                  Popen idx out] @ polled @ [Wait idx, UnlinkProg idx]
              in if cancelled then
                   (body @ [UnlinkOutput idx out, PbarClose (pbar_close (e_handle G) (e_qdbus G)),
                            NotifyCancelled (idx + 1) tot],
                    Task_cancelled)
                 else if tsk_returncode t \<noteq> 0 then
                   (body @ [UnlinkOutput idx out],
                    Failed (Encode_error (path_name (tsk_path t)) (diag_excerpt (tsk_stderr t))))
                 else (body @ [PbarSet slice_end Done idx], Succeeded)))))"

text \<open>The outcomes of a task whose encoder was spawned.\<close>

fun spawned :: "task_outcome \<Rightarrow> bool" where
  "spawned Succeeded = True"
| "spawned (Failed er) = True"
| "spawned Task_cancelled = True"
| "spawned Missing = False"
| "spawned Rejected = False"
| "spawned Raised = False"

datatype ending = Exhausted | Cancelled | Aborted

record batch_result =
  done_count :: nat
  errors :: "err list"
  events :: "event list"
  ending :: ending

definition after :: "event list \<Rightarrow> batch_result \<Rightarrow> batch_result" where
  "after evs r = r\<lparr>events := evs @ events r\<rparr>"

text \<open>
  The \<^verbatim>\<open>for\<close> loop from index \<open>idx\<close> on, with the current \<^verbatim>\<open>done\<close> and \<^verbatim>\<open>errors\<close>. A
  cancelled task returns from \<^verbatim>\<open>convert_files\<close>; an exception of \<^verbatim>\<open>pathlib\<close> (the OSError
  of \<^verbatim>\<open>exists\<close>, the ValueError of \<^verbatim>\<open>with_suffix\<close>) is not caught and leaves it too.
\<close>

fun convert_loop :: "env \<Rightarrow> nat \<Rightarrow> nat \<Rightarrow> task list \<Rightarrow> nat \<Rightarrow> err list \<Rightarrow> batch_result" where
  "convert_loop G tot idx [] dn errs =
     \<lparr>done_count = dn, errors = errs, events = [], ending = Exhausted\<rparr>"
| "convert_loop G tot idx (t # ts) dn errs =
     (case run_task G tot idx t of
        (evs, Missing) \<Rightarrow>
          after evs (convert_loop G tot (Suc idx) ts dn (errs @ [File_not_found (tsk_path t)]))
      | (evs, Rejected) \<Rightarrow> after evs (convert_loop G tot (Suc idx) ts dn errs)
      | (evs, Succeeded) \<Rightarrow> after evs (convert_loop G tot (Suc idx) ts (Suc dn) errs)
      | (evs, Failed er) \<Rightarrow> after evs (convert_loop G tot (Suc idx) ts dn (errs @ [er]))
      | (evs, Task_cancelled) \<Rightarrow>
          \<lparr>done_count = dn, errors = errs, events = evs, ending = Cancelled\<rparr>
      | (evs, Raised) \<Rightarrow>
          \<lparr>done_count = dn, errors = errs, events = evs, ending = Aborted\<rparr>)"

definition final_report :: "nat \<Rightarrow> nat \<Rightarrow> err list \<Rightarrow> event list" where
  "final_report dn tot errs =
     (if errs \<noteq> [] then
        [KdialogErrors dn tot (take 3 errs)
           (if 3 < length errs then Some (length errs - 3) else None),
         NotifyErrors dn tot (length errs)]
      else if 0 < dn then [NotifyDone dn]
      else [])"

definition convert_files :: "string \<Rightarrow> string list \<Rightarrow> string option \<Rightarrow> task list \<Rightarrow> batch_result" where
  "convert_files fmt kdialog_out qdbus files =
     (let tot = length files;
          G = \<lparr>e_fmt = fmt, e_handle = pbar_open kdialog_out, e_qdbus = qdbus\<rparr>;
          r = convert_loop G tot 0 files 0 []
      in case ending r of
           Exhausted \<Rightarrow>
             r\<lparr>events := PbarOpen # events r
                @ PbarClose (pbar_close (e_handle G) (e_qdbus G))
                # final_report (done_count r) tot (errors r)\<rparr>
         | Cancelled \<Rightarrow> r\<lparr>events := PbarOpen # events r\<rparr>
         | Aborted \<Rightarrow> r\<lparr>events := PbarOpen # events r\<rparr>)"


text \<open>The calls of \<^verbatim>\<open>pbar_close\<close>.\<close>

fun is_close :: "event \<Rightarrow> bool" where
  "is_close (PbarClose b) = True"
| "is_close _ = False"

text \<open>The values passed to \<^verbatim>\<open>pbar_set\<close>, in order.\<close>

fun pbar_values :: "event list \<Rightarrow> int list" where
  "pbar_values [] = []"
| "pbar_values (PbarSet v l i # evs) = v # pbar_values evs"
| "pbar_values (_ # evs) = pbar_values evs"

section \<open>Sample inputs\<close>

definition song :: ppath where
  "song = \<lparr>p_anchor = ''/'', p_parts = [''music'', ''song.flac'']\<rparr>"

text \<open>A file whose encoder runs to the end without a progress record being polled.\<close>

definition plain_task :: task where
  "plain_task = \<lparr>tsk_path = song, tsk_exists = Present, tsk_codec = Some ''flac'', tsk_yes = True,
     tsk_duration = None, tsk_ticks = [], tsk_returncode = 0, tsk_stderr = []\<rparr>"

definition missing_task :: task where
  "missing_task = plain_task\<lparr>tsk_exists := Absent\<rparr>"

definition failing_task :: task where
  "failing_task = plain_task\<lparr>tsk_returncode := 1, tsk_stderr := [0x62, 0x61, 0x64]\<rparr>"

text \<open>A ten-second file polled once at five seconds, when the display surface is gone.\<close>

definition cancel_task :: task where
  "cancel_task = plain_task\<lparr>tsk_duration := Some (Finite 10),
     tsk_ticks := [\<lparr>tk_read = Some ''out_time_ms=5000000'', tk_alive = False\<rparr>]\<rparr>"

text \<open>The current directory given as a file: it exists and its path has no name.\<close>

definition dot_task :: task where
  "dot_task = plain_task\<lparr>tsk_path := \<lparr>p_anchor = [], p_parts = []\<rparr>\<rparr>"

text \<open>
  A ten-second file polled at five seconds, again at five seconds, at four and at seven
  seconds, the display surface answering every time.
\<close>

definition polled_task :: task where
  "polled_task = plain_task\<lparr>tsk_duration := Some (Finite 10),
     tsk_ticks := [\<lparr>tk_read = Some ''out_time_ms=5000000'', tk_alive = True\<rparr>,
                   \<lparr>tk_read = Some ''out_time_ms=5000000'', tk_alive = True\<rparr>,
                   \<lparr>tk_read = Some ''out_time_ms=4000000'', tk_alive = True\<rparr>,
                   \<lparr>tk_read = Some ''out_time_ms=7000000'', tk_alive = True\<rparr>]\<rparr>"

definition sample_env :: env where
  "sample_env = \<lparr>e_fmt = ''mp3'', e_handle = Some (''svc'', ''/P''), e_qdbus = Some ''qdbus''\<rparr>"

section \<open>Evaluating the sample inputs\<close>

lemma slice_0_1: "slice_bound 0 (Suc 0) = 0"
  by code_simp

lemma slice_1_1: "slice_bound (Suc 0) (Suc 0) = 100"
  by code_simp

lemma poll_5s: "poll_overall 0 100 (Some (Finite 10)) (Some ''out_time_ms=5000000'') = Some 50"
  by code_simp

lemma poll_4s: "poll_overall 0 100 (Some (Finite 10)) (Some ''out_time_ms=4000000'') = Some 40"
  by code_simp

lemma poll_7s: "poll_overall 0 100 (Some (Finite 10)) (Some ''out_time_ms=7000000'') = Some 70"
  by code_simp

lemma sample_output:
  "output_path song ''mp3'' = Some \<lparr>p_anchor = ''/'', p_parts = [''music'', ''song.mp3'']\<rparr>"
  by code_simp

lemma sample_name: "path_name song = ''song.flac''"
  by (simp add: song_def path_name_def)

lemma dot_output: "output_path \<lparr>p_anchor = [], p_parts = []\<rparr> ''mp3'' = None"
  by code_simp

lemma sample_handle: "pbar_open [''svc'', ''/P''] = Some (''svc'', ''/P'')"
  by (simp add: pbar_open_def)

lemmas sample_simps = sample_env_def plain_task_def cancel_task_def failing_task_def
  missing_task_def polled_task_def dot_task_def sample_output sample_name dot_output
  sample_handle slice_0_1 slice_1_1 poll_5s poll_4s poll_7s warn_if_lossy_def src_lossy_def
  LOSSY_CODECS_def pbar_set_def pbar_close_def Let_def after_def

lemma cancel_task_run:
  "run_task sample_env (Suc 0) 0 cancel_task =
     ([ProbeCodec 0, PbarSet 0 Preparing 0, Mkstemp 0, GetDuration 0,
       Popen 0 \<lparr>p_anchor = ''/'', p_parts = [''music'', ''song.mp3'']\<rparr>,
       PbarSet 50 Converting 0, Kill 0, Wait 0, UnlinkProg 0,
       UnlinkOutput 0 \<lparr>p_anchor = ''/'', p_parts = [''music'', ''song.mp3'']\<rparr>,
       PbarClose True, NotifyCancelled 1 1], Task_cancelled)"
  by (simp add: run_task_def sample_simps)

lemma polled_task_run:
  "run_task sample_env (Suc 0) 0 polled_task =
     ([ProbeCodec 0, PbarSet 0 Preparing 0, Mkstemp 0, GetDuration 0,
       Popen 0 \<lparr>p_anchor = ''/'', p_parts = [''music'', ''song.mp3'']\<rparr>,
       PbarSet 50 Converting 0, PbarSet 70 Converting 0, Wait 0, UnlinkProg 0,
       PbarSet 100 Done 0], Succeeded)"
  by (simp add: run_task_def sample_simps)

lemma plain_task_run:
  "run_task sample_env (Suc 0) 0 plain_task =
     ([ProbeCodec 0, PbarSet 0 Preparing 0, Mkstemp 0, GetDuration 0,
       Popen 0 \<lparr>p_anchor = ''/'', p_parts = [''music'', ''song.mp3'']\<rparr>,
       Wait 0, UnlinkProg 0, PbarSet 100 Done 0], Succeeded)"
  by (simp add: run_task_def sample_simps)

lemma failing_task_run:
  "run_task sample_env (Suc 0) 0 failing_task =
     ([ProbeCodec 0, PbarSet 0 Preparing 0, Mkstemp 0, GetDuration 0,
       Popen 0 \<lparr>p_anchor = ''/'', p_parts = [''music'', ''song.mp3'']\<rparr>,
       Wait 0, UnlinkProg 0,
       UnlinkOutput 0 \<lparr>p_anchor = ''/'', p_parts = [''music'', ''song.mp3'']\<rparr>],
      Failed (Encode_error ''song.flac'' [0x62, 0x61, 0x64]))"
  by (simp add: run_task_def sample_simps diag_excerpt_def utf8_decode_def utf8_step.simps)

lemma dot_task_run: "run_task sample_env (Suc 0) 0 dot_task = ([], Raised)"
  by (simp add: run_task_def sample_simps)

lemma missing_task_run: "run_task sample_env tot idx missing_task = ([], Missing)"
  by (simp add: run_task_def sample_simps)

lemma sample_env_eq:
  "\<lparr>e_fmt = ''mp3'', e_handle = pbar_open [''svc'', ''/P''], e_qdbus = Some ''qdbus''\<rparr> = sample_env"
  by (simp add: sample_env_def sample_handle)

section \<open>The poll loop\<close>

lemma poll_loop_events:
  "poll_loop G idx s e d l ts = (evs, c) \<Longrightarrow> ev \<in> set evs \<Longrightarrow>
     (\<exists>v. ev = PbarSet v Converting idx) \<or> ev = Kill idx"
proof (induction ts arbitrary: l evs c)
  case Nil
  then show ?case by simp
next
  case (Cons t ts)
  then show ?case
    by (auto split: option.splits if_splits prod.splits)
qed

lemma poll_loop_cancel_shape:
  "poll_loop G idx s e d l ts = (evs, True) \<Longrightarrow>
     \<exists>front v. evs = front @ [PbarSet v Converting idx, Kill idx] \<and> Kill idx \<notin> set front"
proof (induction ts arbitrary: l evs)
  case Nil
  then show ?case by simp
next
  case (Cons t ts)
  show ?case
  proof (cases "poll_overall s e d (tk_read t)")
    case None
    with Cons show ?thesis by simp
  next
    case (Some ov)
    show ?thesis
    proof (cases "l < ov")
      case False
      with Cons Some show ?thesis by simp
    next
      case True
      show ?thesis
      proof (cases "pbar_set (e_handle G) (e_qdbus G) (tk_alive t)")
        case False
        with Cons.prems Some True have "evs = [] @ [PbarSet ov Converting idx, Kill idx]" by simp
        then show ?thesis by force
      next
        case alive: True
        obtain evs' c' where r: "poll_loop G idx s e d ov ts = (evs', c')"
          by (cases "poll_loop G idx s e d ov ts")
        with Cons.prems Some True alive have e: "evs = PbarSet ov Converting idx # evs'" "c' = True"
          by simp_all
        from Cons.IH[of ov evs'] r e(2) obtain front v
          where "evs' = front @ [PbarSet v Converting idx, Kill idx]" "Kill idx \<notin> set front"
          by blast
        with e(1) have "evs = (PbarSet ov Converting idx # front) @ [PbarSet v Converting idx, Kill idx]
            \<and> Kill idx \<notin> set (PbarSet ov Converting idx # front)"
          by simp
        then show ?thesis by blast
      qed
    qed
  qed
qed

lemma poll_loop_no_kill:
  "poll_loop G idx s e d l ts = (evs, False) \<Longrightarrow> Kill idx \<notin> set evs"
proof (induction ts arbitrary: l evs)
  case Nil
  then show ?case by simp
next
  case (Cons t ts)
  then show ?case
    by (fastforce split: option.splits if_splits prod.splits)
qed

lemma poll_loop_quiet:
  "(\<forall>t \<in> set ts. \<forall>v. poll_overall s e d (tk_read t) = Some v \<longrightarrow> v \<le> l) \<Longrightarrow>
     poll_loop G idx s e d l ts = ([], False)"
  by (induction ts) (auto split: option.splits)

lemma pbar_values_append [simp]: "pbar_values (xs @ ys) = pbar_values xs @ pbar_values ys"
  by (induction xs rule: pbar_values.induct) simp_all

text \<open>Every value the loop forwards is strictly greater than the one forwarded before it.\<close>

lemma poll_loop_strict:
  "poll_loop G idx s e d l ts = (evs, c) \<Longrightarrow> sorted_wrt (<) (l # pbar_values evs)"
proof (induction ts arbitrary: l evs c)
  case Nil
  then show ?case by simp
next
  case (Cons t ts)
  show ?case
  proof (cases "poll_overall s e d (tk_read t)")
    case None
    with Cons show ?thesis by simp
  next
    case (Some ov)
    show ?thesis
    proof (cases "l < ov")
      case False
      with Cons Some show ?thesis by simp
    next
      case True
      show ?thesis
      proof (cases "pbar_set (e_handle G) (e_qdbus G) (tk_alive t)")
        case False
        with Cons.prems Some True show ?thesis by auto
      next
        case alive: True
        obtain evs' c' where r: "poll_loop G idx s e d ov ts = (evs', c')"
          by (cases "poll_loop G idx s e d ov ts")
        with Cons.prems Some True alive have e: "evs = PbarSet ov Converting idx # evs'"
          by simp
        from Cons.IH[OF r] have "sorted_wrt (<) (ov # pbar_values evs')" .
        with True e show ?thesis by auto
      qed
    qed
  qed
qed

lemma poll_overall_no_duration: "poll_overall s e None rd = None"
  by (simp add: poll_overall_def Let_def split: option.splits)

section \<open>One task\<close>

lemma run_task_spawned:
  assumes "run_task G tot idx t = (evs, oc)" "spawned oc"
  shows "\<exists>out polled c.
     tsk_exists t = Present \<and> output_path (tsk_path t) (e_fmt G) = Some out \<and>
     warn_if_lossy (tsk_codec t) (tsk_yes t) \<and>
     poll_loop G idx (slice_bound idx tot) (slice_bound (idx + 1) tot) (tsk_duration t)
       (slice_bound idx tot) (tsk_ticks t) = (polled, c) \<and>
     evs = (ProbeCodec idx # (if src_lossy (tsk_codec t) then [WarnDialog idx] else []))
           @ [PbarSet (slice_bound idx tot) Preparing idx, Mkstemp idx, GetDuration idx, Popen idx out]
           @ polled @ [Wait idx, UnlinkProg idx]
           @ (if c then [UnlinkOutput idx out, PbarClose (pbar_close (e_handle G) (e_qdbus G)),
                         NotifyCancelled (idx + 1) tot]
              else if tsk_returncode t \<noteq> 0 then [UnlinkOutput idx out]
              else [PbarSet (slice_bound (idx + 1) tot) Done idx]) \<and>
     oc = (if c then Task_cancelled
           else if tsk_returncode t \<noteq> 0
             then Failed (Encode_error (path_name (tsk_path t)) (diag_excerpt (tsk_stderr t)))
           else Succeeded)"
  using assms unfolding run_task_def
  by (auto simp: Let_def split: if_splits option.splits prod.splits exists_result.splits)

lemma run_task_not_spawned:
  assumes "run_task G tot idx t = (evs, oc)" "\<not> spawned oc"
  shows "set evs \<subseteq> {ProbeCodec idx, WarnDialog idx}"
  using assms unfolding run_task_def
  by (auto simp: Let_def split: if_splits option.splits prod.splits exists_result.splits)

lemma run_task_closes:
  assumes "run_task G tot idx t = (evs, oc)"
  shows "filter is_close evs =
     (if oc = Task_cancelled then [PbarClose (pbar_close (e_handle G) (e_qdbus G))] else [])"
proof (cases "spawned oc")
  case False
  from run_task_not_spawned[OF assms False] have "\<forall>ev \<in> set evs. \<not> is_close ev" by auto
  then have "filter is_close evs = []" by (simp add: filter_empty_conv)
  with False show ?thesis by (cases oc) simp_all
next
  case True
  from run_task_spawned[OF assms True] obtain out polled c where
    p: "poll_loop G idx (slice_bound idx tot) (slice_bound (idx + 1) tot) (tsk_duration t)
       (slice_bound idx tot) (tsk_ticks t) = (polled, c)" and
    e: "evs = (ProbeCodec idx # (if src_lossy (tsk_codec t) then [WarnDialog idx] else []))
           @ [PbarSet (slice_bound idx tot) Preparing idx, Mkstemp idx, GetDuration idx, Popen idx out]
           @ polled @ [Wait idx, UnlinkProg idx]
           @ (if c then [UnlinkOutput idx out, PbarClose (pbar_close (e_handle G) (e_qdbus G)),
                         NotifyCancelled (idx + 1) tot]
              else if tsk_returncode t \<noteq> 0 then [UnlinkOutput idx out]
              else [PbarSet (slice_bound (idx + 1) tot) Done idx])" and
    o: "oc = (if c then Task_cancelled
           else if tsk_returncode t \<noteq> 0
             then Failed (Encode_error (path_name (tsk_path t)) (diag_excerpt (tsk_stderr t)))
           else Succeeded)"
    by blast
  have "\<forall>ev \<in> set polled. \<not> is_close ev" using poll_loop_events[OF p] by fastforce
  then have q: "filter is_close polled = []" by (simp add: filter_empty_conv)
  show ?thesis unfolding e o using q by simp
qed

section \<open>The batch\<close>

lemma convert_loop_closes:
  "filter is_close (events (convert_loop G tot idx ts dn errs)) =
     (if ending (convert_loop G tot idx ts dn errs) = Cancelled
      then [PbarClose (pbar_close (e_handle G) (e_qdbus G))] else [])"
proof (induction ts arbitrary: idx dn errs)
  case Nil
  then show ?case by simp
next
  case (Cons t ts)
  obtain evs oc where r: "run_task G tot idx t = (evs, oc)" by (cases "run_task G tot idx t")
  from run_task_closes[OF r] show ?case
    using Cons.IH by (cases oc) (simp_all add: r after_def)
qed

lemma final_report_no_close: "filter is_close (final_report dn tot errs) = []"
  by (simp add: final_report_def)

text \<open>
  C6, as the code has it. A run of \<^verbatim>\<open>convert_files\<close> that ends by exhausting the file list
  or by cancellation calls \<^verbatim>\<open>pbar_close\<close> exactly once, and the call reaches the display
  surface exactly when there are a handle and a \<^verbatim>\<open>qdbus\<close> binary. A run that an uncaught
  exception of \<^verbatim>\<open>pathlib\<close> cuts short never calls it.
\<close>

theorem close_called_once_unless_aborted:
  "filter is_close (events (convert_files fmt kdialog_out qdbus files)) =
     (if ending (convert_files fmt kdialog_out qdbus files) = Aborted then []
      else [PbarClose (pbar_close (pbar_open kdialog_out) qdbus)])"
  unfolding convert_files_def Let_def
  using convert_loop_closes[of "\<lparr>e_fmt = fmt, e_handle = pbar_open kdialog_out, e_qdbus = qdbus\<rparr>"
      "length files" 0 files 0 "[]"]
  by (auto simp: final_report_no_close split: ending.splits)

theorem close_called_once_unless_aborted_witness:
  "ending (convert_files ''mp3'' [''svc'', ''/P''] (Some ''qdbus'') [cancel_task]) = Cancelled \<and>
   filter is_close (events (convert_files ''mp3'' [''svc'', ''/P''] (Some ''qdbus'') [cancel_task]))
     = [PbarClose True] \<and>
   ending (convert_files ''mp3'' [''svc'', ''/P''] (Some ''qdbus'') [plain_task]) = Exhausted \<and>
   filter is_close (events (convert_files ''mp3'' [''svc'', ''/P''] (Some ''qdbus'') [plain_task]))
     = [PbarClose True]"
proof -
  have c: "ending (convert_files ''mp3'' [''svc'', ''/P''] (Some ''qdbus'') [cancel_task]) = Cancelled"
    by (simp add: convert_files_def sample_env_eq cancel_task_run)
  have x: "ending (convert_files ''mp3'' [''svc'', ''/P''] (Some ''qdbus'') [plain_task]) = Exhausted"
    by (simp add: convert_files_def sample_env_eq plain_task_run after_def)
  have p: "pbar_close (pbar_open [''svc'', ''/P'']) (Some ''qdbus'')"
    by (simp add: pbar_close_def sample_handle)
  show ?thesis
    using close_called_once_unless_aborted[of "''mp3''" "[''svc'', ''/P'']" "Some ''qdbus''" "[cancel_task]"]
      close_called_once_unless_aborted[of "''mp3''" "[''svc'', ''/P'']" "Some ''qdbus''" "[plain_task]"]
      c x p
    by simp
qed

text \<open>
  The claim as it is worded fails: given the current directory as its only file, the run
  opens the progress bar, \<^verbatim>\<open>with_suffix\<close> raises on the empty name, and \<^verbatim>\<open>pbar_close\<close> is
  never called.
\<close>

theorem close_never_called_counterexample:
  "length (filter is_close (events (convert_files ''mp3'' [''svc'', ''/P''] (Some ''qdbus'') [dot_task])))
     \<noteq> 1"
  by (simp add: convert_files_def sample_env_eq dot_task_run)

section \<open>Updates of the poll loop\<close>

text \<open>
  C10. While the encoder runs, every value that a poll passes to \<^verbatim>\<open>pbar_set\<close> is strictly
  greater than the value forwarded before it, the first of them strictly greater than
  the \<^verbatim>\<open>slice_start\<close> that the task has just forwarded with its Preparing label. The
  encoder is killed only directly after such a call, the last of the loop. When the
  duration probe failed, when no poll reads an elapsed-time record, or when no poll
  computes a value above the last one forwarded, the loop makes no call at all and ends
  without cancellation.
\<close>

theorem poll_updates_only_on_increase:
  "sorted_wrt (<) (l # pbar_values (fst (poll_loop G idx s e d l ts))) \<and>
   (snd (poll_loop G idx s e d l ts) \<longrightarrow>
      (\<exists>front v. fst (poll_loop G idx s e d l ts) = front @ [PbarSet v Converting idx, Kill idx]
                  \<and> Kill idx \<notin> set front)) \<and>
   (\<not> snd (poll_loop G idx s e d l ts) \<longrightarrow> Kill idx \<notin> set (fst (poll_loop G idx s e d l ts))) \<and>
   (d = None \<longrightarrow> poll_loop G idx s e d l ts = ([], False)) \<and>
   ((\<forall>t \<in> set ts. case tk_read t of None \<Rightarrow> True | Some c \<Rightarrow> out_time_matches c = []) \<longrightarrow>
      poll_loop G idx s e d l ts = ([], False)) \<and>
   ((\<forall>t \<in> set ts. \<forall>v. poll_overall s e d (tk_read t) = Some v \<longrightarrow> v \<le> l) \<longrightarrow>
      poll_loop G idx s e d l ts = ([], False)) \<and>
   (\<forall>evs oc. run_task G tot idx t = (evs, oc) \<longrightarrow> spawned oc \<longrightarrow>
      (\<exists>pre out polled c rest.
         evs = pre @ [PbarSet (slice_bound idx tot) Preparing idx, Mkstemp idx, GetDuration idx,
                      Popen idx out] @ polled @ Wait idx # rest \<and>
         pbar_values pre = [] \<and>
         poll_loop G idx (slice_bound idx tot) (slice_bound (idx + 1) tot) (tsk_duration t)
           (slice_bound idx tot) (tsk_ticks t) = (polled, c) \<and>
         sorted_wrt (<) (slice_bound idx tot # pbar_values polled)))"
proof (intro conjI allI impI)
  show "sorted_wrt (<) (l # pbar_values (fst (poll_loop G idx s e d l ts)))"
    using poll_loop_strict[of G idx s e d l ts] by (cases "poll_loop G idx s e d l ts") simp
next
  assume "snd (poll_loop G idx s e d l ts)"
  then show "\<exists>front v. fst (poll_loop G idx s e d l ts) = front @ [PbarSet v Converting idx, Kill idx]
                  \<and> Kill idx \<notin> set front"
    using poll_loop_cancel_shape[of G idx s e d l ts] by (cases "poll_loop G idx s e d l ts") simp
next
  assume "\<not> snd (poll_loop G idx s e d l ts)"
  then show "Kill idx \<notin> set (fst (poll_loop G idx s e d l ts))"
    using poll_loop_no_kill[of G idx s e d l ts] by (cases "poll_loop G idx s e d l ts") simp
next
  assume "d = None"
  then show "poll_loop G idx s e d l ts = ([], False)"
    by (intro poll_loop_quiet) (simp add: poll_overall_no_duration)
next
  assume a: "\<forall>t \<in> set ts. case tk_read t of None \<Rightarrow> True | Some c \<Rightarrow> out_time_matches c = []"
  show "poll_loop G idx s e d l ts = ([], False)"
  proof (rule poll_loop_quiet, intro ballI allI impI)
    fix t v assume "t \<in> set ts" "poll_overall s e d (tk_read t) = Some v"
    with a show "v \<le> l" by (auto simp: poll_overall_def Let_def split: option.splits if_splits)
  qed
next
  assume "\<forall>t \<in> set ts. \<forall>v. poll_overall s e d (tk_read t) = Some v \<longrightarrow> v \<le> l"
  then show "poll_loop G idx s e d l ts = ([], False)" by (rule poll_loop_quiet)
next
  fix evs oc assume r: "run_task G tot idx t = (evs, oc)" and sp: "spawned oc"
  from run_task_spawned[OF r sp] obtain out polled c where
    p: "poll_loop G idx (slice_bound idx tot) (slice_bound (idx + 1) tot) (tsk_duration t)
       (slice_bound idx tot) (tsk_ticks t) = (polled, c)" and
    e: "evs = (ProbeCodec idx # (if src_lossy (tsk_codec t) then [WarnDialog idx] else []))
           @ [PbarSet (slice_bound idx tot) Preparing idx, Mkstemp idx, GetDuration idx, Popen idx out]
           @ polled @ [Wait idx, UnlinkProg idx]
           @ (if c then [UnlinkOutput idx out, PbarClose (pbar_close (e_handle G) (e_qdbus G)),
                         NotifyCancelled (idx + 1) tot]
              else if tsk_returncode t \<noteq> 0 then [UnlinkOutput idx out]
              else [PbarSet (slice_bound (idx + 1) tot) Done idx])"
    by blast
  define pre where "pre = ProbeCodec idx # (if src_lossy (tsk_codec t) then [WarnDialog idx] else [])"
  define rest where "rest = UnlinkProg idx
           # (if c then [UnlinkOutput idx out, PbarClose (pbar_close (e_handle G) (e_qdbus G)),
                         NotifyCancelled (idx + 1) tot]
              else if tsk_returncode t \<noteq> 0 then [UnlinkOutput idx out]
              else [PbarSet (slice_bound (idx + 1) tot) Done idx])"
  have 1: "evs = pre @ [PbarSet (slice_bound idx tot) Preparing idx, Mkstemp idx, GetDuration idx,
                      Popen idx out] @ polled @ Wait idx # rest"
    using e by (simp add: pre_def rest_def)
  have 2: "pbar_values pre = []" by (simp add: pre_def)
  have 3: "sorted_wrt (<) (slice_bound idx tot # pbar_values polled)"
    using poll_loop_strict[OF p] .
  from 1 2 3 p show "\<exists>pre out polled c rest.
         evs = pre @ [PbarSet (slice_bound idx tot) Preparing idx, Mkstemp idx, GetDuration idx,
                      Popen idx out] @ polled @ Wait idx # rest \<and>
         pbar_values pre = [] \<and>
         poll_loop G idx (slice_bound idx tot) (slice_bound (idx + 1) tot) (tsk_duration t)
           (slice_bound idx tot) (tsk_ticks t) = (polled, c) \<and>
         sorted_wrt (<) (slice_bound idx tot # pbar_values polled)"
    by blast
qed

theorem poll_updates_only_on_increase_witness:
  "poll_loop sample_env 0 0 100 (Some (Finite 10)) 0 (tsk_ticks polled_task)
     = ([PbarSet 50 Converting 0, PbarSet 70 Converting 0], False) \<and>
   sorted_wrt (<) (0 # pbar_values (fst (poll_loop sample_env 0 0 100 (Some (Finite 10)) 0
      (tsk_ticks polled_task)))) \<and>
   Kill 0 \<notin> set (fst (poll_loop sample_env 0 0 100 (Some (Finite 10)) 0 (tsk_ticks polled_task))) \<and>
   snd (poll_loop sample_env 0 0 100 (Some (Finite 10)) 0 (tsk_ticks cancel_task)) \<and>
   (\<exists>front v. fst (poll_loop sample_env 0 0 100 (Some (Finite 10)) 0 (tsk_ticks cancel_task))
      = front @ [PbarSet v Converting 0, Kill 0] \<and> Kill 0 \<notin> set front) \<and>
   poll_loop sample_env 0 0 100 None 0 (tsk_ticks polled_task) = ([], False)"
proof -
  have a: "poll_loop sample_env 0 0 100 (Some (Finite 10)) 0 (tsk_ticks polled_task)
     = ([PbarSet 50 Converting 0, PbarSet 70 Converting 0], False)"
    by (simp add: sample_simps)
  have b: "snd (poll_loop sample_env 0 0 100 (Some (Finite 10)) 0 (tsk_ticks cancel_task))"
    by (simp add: sample_simps)
  show ?thesis
    using a b
      poll_updates_only_on_increase[of 0 sample_env 0 0 100 "Some (Finite 10)" "tsk_ticks polled_task"]
      poll_updates_only_on_increase[of 0 sample_env 0 0 100 "Some (Finite 10)" "tsk_ticks cancel_task"]
      poll_updates_only_on_increase[of 0 sample_env 0 0 100 None "tsk_ticks polled_task"]
    by simp
qed

section \<open>The progress-report file\<close>

text \<open>
  C7. A task whose encoder was spawned creates its progress-report file before the spawn
  and unlinks it right after waiting for the encoder, once, on every path alike: success,
  encoder failure and cancellation. A task that is not spawned creates no such file.
\<close>

theorem prog_file_removed_on_every_path:
  assumes "run_task G tot idx t = (evs, oc)"
  shows "(spawned oc \<longrightarrow>
            (\<exists>front rest out. evs = front @ [Wait idx, UnlinkProg idx] @ rest \<and>
               Mkstemp idx \<in> set front \<and> Popen idx out \<in> set front \<and>
               UnlinkProg idx \<notin> set front \<and> Mkstemp idx \<notin> set rest \<and>
               UnlinkProg idx \<notin> set rest)) \<and>
         (\<not> spawned oc \<longrightarrow> Mkstemp idx \<notin> set evs)"
proof (intro conjI impI)
  assume r: "spawned oc"
  from run_task_spawned[OF assms r] obtain out polled c where
    p: "poll_loop G idx (slice_bound idx tot) (slice_bound (idx + 1) tot) (tsk_duration t)
       (slice_bound idx tot) (tsk_ticks t) = (polled, c)" and
    e: "evs = (ProbeCodec idx # (if src_lossy (tsk_codec t) then [WarnDialog idx] else []))
           @ [PbarSet (slice_bound idx tot) Preparing idx, Mkstemp idx, GetDuration idx, Popen idx out]
           @ polled @ [Wait idx, UnlinkProg idx]
           @ (if c then [UnlinkOutput idx out, PbarClose (pbar_close (e_handle G) (e_qdbus G)),
                         NotifyCancelled (idx + 1) tot]
              else if tsk_returncode t \<noteq> 0 then [UnlinkOutput idx out]
              else [PbarSet (slice_bound (idx + 1) tot) Done idx])"
    by blast
  define fr where "fr = (ProbeCodec idx # (if src_lossy (tsk_codec t) then [WarnDialog idx] else []))
           @ [PbarSet (slice_bound idx tot) Preparing idx, Mkstemp idx, GetDuration idx, Popen idx out]
           @ polled"
  define rs where "rs = (if c then [UnlinkOutput idx out, PbarClose (pbar_close (e_handle G) (e_qdbus G)),
                         NotifyCancelled (idx + 1) tot]
              else if tsk_returncode t \<noteq> 0 then [UnlinkOutput idx out]
              else [PbarSet (slice_bound (idx + 1) tot) Done idx])"
  have 1: "evs = fr @ [Wait idx, UnlinkProg idx] @ rs" using e by (simp add: fr_def rs_def)
  have 2: "Mkstemp idx \<in> set fr" "Popen idx out \<in> set fr" by (simp_all add: fr_def)
  have 3: "UnlinkProg idx \<notin> set fr"
    using poll_loop_events[OF p, of "UnlinkProg idx"] by (auto simp: fr_def)
  have 4: "Mkstemp idx \<notin> set rs" "UnlinkProg idx \<notin> set rs" by (simp_all add: rs_def)
  from 1 2 3 4 show "\<exists>front rest out. evs = front @ [Wait idx, UnlinkProg idx] @ rest \<and>
               Mkstemp idx \<in> set front \<and> Popen idx out \<in> set front \<and>
               UnlinkProg idx \<notin> set front \<and> Mkstemp idx \<notin> set rest \<and>
               UnlinkProg idx \<notin> set rest" by blast
next
  assume "\<not> spawned oc"
  from run_task_not_spawned[OF assms this] show "Mkstemp idx \<notin> set evs" by auto
qed

theorem prog_file_removed_on_every_path_witness:
  "(\<exists>front rest out. fst (run_task sample_env (Suc 0) 0 cancel_task)
      = front @ [Wait 0, UnlinkProg 0] @ rest \<and>
      Mkstemp 0 \<in> set front \<and> Popen 0 out \<in> set front \<and> UnlinkProg 0 \<notin> set front \<and>
      Mkstemp 0 \<notin> set rest \<and> UnlinkProg 0 \<notin> set rest) \<and>
   (\<exists>front rest out. fst (run_task sample_env (Suc 0) 0 failing_task)
      = front @ [Wait 0, UnlinkProg 0] @ rest \<and>
      Mkstemp 0 \<in> set front \<and> Popen 0 out \<in> set front \<and> UnlinkProg 0 \<notin> set front \<and>
      Mkstemp 0 \<notin> set rest \<and> UnlinkProg 0 \<notin> set rest) \<and>
   (\<exists>front rest out. fst (run_task sample_env (Suc 0) 0 polled_task)
      = front @ [Wait 0, UnlinkProg 0] @ rest \<and>
      Mkstemp 0 \<in> set front \<and> Popen 0 out \<in> set front \<and> UnlinkProg 0 \<notin> set front \<and>
      Mkstemp 0 \<notin> set rest \<and> UnlinkProg 0 \<notin> set rest) \<and>
   Mkstemp 0 \<notin> set (fst (run_task sample_env (Suc 0) 0 missing_task))"
  using prog_file_removed_on_every_path[OF cancel_task_run]
    prog_file_removed_on_every_path[OF failing_task_run]
    prog_file_removed_on_every_path[OF polled_task_run]
    prog_file_removed_on_every_path[OF missing_task_run[of "Suc 0" 0]]
  by (simp add: cancel_task_run failing_task_run polled_task_run missing_task_run)

section \<open>Indices of the calls of a run\<close>





lemma run_task_missing_iff:
  "run_task G tot idx t = (evs, Missing) \<Longrightarrow> tsk_exists t = Absent"
  unfolding run_task_def
  by (auto simp: Let_def split: if_splits option.splits prod.splits exists_result.splits)




section \<open>Cancellation\<close>












end
